theory Spec2Isabelle
  imports Complex_Main
begin

section \<open>Python values\<close>

text \<open>
  A Python \<open>str\<close> is a sequence of Unicode code points, and \<open>len\<close> counts code
  points; a text is therefore a list of code points. \<open>S\<close> reads an ASCII literal.
\<close>

type_synonym pystr = "nat list"

type_synonym bytes = "char list"

definition S :: "string \<Rightarrow> pystr" where
  "S s = map of_char s"

text \<open>
  Numbers: Python's \<open>int\<close> and the finite \<open>float\<close>s are \<open>Num\<close> of their exact
  value; the three special floats are kept apart because every comparison with
  \<open>NaN\<close> is false, which decides what \<open>min\<close> and \<open>max\<close> return.
\<close>

datatype pynum = Num real | PosInf | NegInf | NaN

fun num_lt :: "pynum \<Rightarrow> pynum \<Rightarrow> bool" where
  "num_lt NaN _ = False"
| "num_lt _ NaN = False"
| "num_lt (Num a) (Num b) = (a < b)"
| "num_lt (Num a) PosInf = True"
| "num_lt (Num a) NegInf = False"
| "num_lt PosInf _ = False"
| "num_lt NegInf (Num b) = True"
| "num_lt NegInf PosInf = True"
| "num_lt NegInf NegInf = False"

definition num_le :: "pynum \<Rightarrow> pynum \<Rightarrow> bool" where
  "num_le a b = (a \<noteq> NaN \<and> b \<noteq> NaN \<and> \<not> num_lt b a)"

text \<open>\<open>min(a, b)\<close> keeps \<open>a\<close> unless \<open>b < a\<close>; \<open>max(a, b)\<close> keeps \<open>a\<close> unless \<open>b > a\<close>.\<close>

definition py_min :: "pynum \<Rightarrow> pynum \<Rightarrow> pynum" where
  "py_min a b = (if num_lt b a then b else a)"

definition py_max :: "pynum \<Rightarrow> pynum \<Rightarrow> pynum" where
  "py_max a b = (if num_lt a b then b else a)"

text \<open>Exceptions carry the message that \<open>str(e)\<close> returns.\<close>

datatype exn =
    ValueError pystr
  | TypeError pystr
  | AttributeError pystr
  | IndexError pystr
  | LibraryError pystr

fun str_exn :: "exn \<Rightarrow> pystr" where
  "str_exn (ValueError m) = m"
| "str_exn (TypeError m) = m"
| "str_exn (AttributeError m) = m"
| "str_exn (IndexError m) = m"
| "str_exn (LibraryError m) = m"

text \<open>
  The value that \<open>json.loads\<close> builds, which is also what \<open>generate_summary\<close> hands
  on: a \<open>dict\<close> is an association list in insertion order with distinct keys.
\<close>

datatype json =
    JNull
  | JBool bool
  | JInt int
  | JFloat pynum
  | JStr pystr
  | JArr "json list"
  | JObj "(pystr \<times> json) list"

section \<open>The world outside the repository\<close>

text \<open>
  The calls recorded on an \<open>FPDF\<close> object, in order.
\<close>

datatype pdf_op =
    AddPage
  | SetFont pystr pystr nat
  | Cell nat nat pystr bool pystr
  | MultiCell nat nat pystr
  | Line nat nat nat nat
  | Ln nat

text \<open>
  Everything the code takes from libraries, services and the process environment is a
  field of \<open>env\<close>: the Unicode tables behind \<open>str.isspace\<close>, \<open>str.lower\<close> and
  \<open>str.isupper\<close>; the credential read at import time; the generative model, which
  answers a prompt given the prompts it was sent before, with the response text or an
  exception; \<open>float\<close> applied to a number literal; \<open>textstat\<close>; the four extraction libraries (a PDF is the list of what
  \<open>extract_text\<close> returns on each page); the formatted wall-clock time; and the byte
  serialisation of an \<open>FPDF\<close> object.
\<close>

record env =
  ch_isspace :: "nat \<Rightarrow> bool"
  str_lower :: "pystr \<Rightarrow> pystr"
  str_isupper :: "pystr \<Rightarrow> bool"
  API_KEY :: "pystr option"
  generate_content :: "pystr list \<Rightarrow> pystr \<Rightarrow> exn + pystr"
  py_float :: "pystr \<Rightarrow> pynum"
  flesch_reading_ease :: "pystr \<Rightarrow> exn + pynum"
  pdfplumber_open :: "bytes \<Rightarrow> exn + (exn + pystr option) list"
  docx_paragraphs :: "bytes \<Rightarrow> exn + pystr list"
  image_to_string :: "bytes \<Rightarrow> exn + pystr"
  decode_utf8 :: "bytes \<Rightarrow> exn + pystr"
  strftime_now :: pystr
  fpdf_output :: "pdf_op list \<Rightarrow> exn + bytes"

text \<open>
  What a call leaves behind: the prompts sent to the model, the messages shown through
  Streamlit, and the lines printed.
\<close>

datatype ui_msg = StError pystr | StWarning pystr | StSuccess pystr

record world =
  calls :: "pystr list"
  ui :: "ui_msg list"
  printed :: "pystr list"

section \<open>String methods\<close>

definition py_startswith :: "pystr \<Rightarrow> pystr \<Rightarrow> bool" where
  "py_startswith s p = (take (length p) s = p)"

text \<open>\<open>p in s\<close> on two strings.\<close>

fun py_in_str :: "pystr \<Rightarrow> pystr \<Rightarrow> bool" where
  "py_in_str p [] = (p = [])"
| "py_in_str p (c # cs) = (py_startswith (c # cs) p \<or> py_in_str p cs)"

text \<open>\<open>s.strip()\<close>.\<close>

definition py_strip :: "env \<Rightarrow> pystr \<Rightarrow> pystr" where
  "py_strip E s = rev (dropWhile (ch_isspace E) (rev (dropWhile (ch_isspace E) s)))"

section \<open>readability.py\<close>

definition calculate_readability_score :: "env \<Rightarrow> pystr \<Rightarrow> world \<Rightarrow> pynum \<times> world" where
  "calculate_readability_score E text w =
     (if text = [] \<or> length (py_strip E text) = 0 then (Num 0, w)
      else case flesch_reading_ease E text of
        Inr score \<Rightarrow> (py_max (Num 0) (py_min (Num 100) score), w)
      | Inl e \<Rightarrow>
          (Num 0, w\<lparr>printed := printed w @ [S ''Error calculating readability score: '' @ str_exn e]\<rparr>))"

section \<open>More string methods\<close>

text \<open>
  \<open>s.split(sep)\<close> and \<open>s.replace(old, new)\<close> scan from the left and take
  non-overlapping occurrences. The code passes literal, non-empty separators and
  patterns only; Python rejects an empty separator, which the scan below never matches.
\<close>

function py_split_from :: "pystr \<Rightarrow> pystr \<Rightarrow> pystr \<Rightarrow> pystr list" where
  "py_split_from sep cur [] = [cur]"
| "py_split_from sep cur (c # cs) =
     (if sep \<noteq> [] \<and> py_startswith (c # cs) sep
      then cur # py_split_from sep [] (drop (length sep) (c # cs))
      else py_split_from sep (cur @ [c]) cs)"
  by pat_completeness auto
termination
  by (relation "measure (\<lambda>(sep, cur, s). length s)") auto

definition py_split :: "pystr \<Rightarrow> pystr \<Rightarrow> pystr list" where
  "py_split s sep = py_split_from sep [] s"

function py_replace :: "pystr \<Rightarrow> pystr \<Rightarrow> pystr \<Rightarrow> pystr" where
  "py_replace [] old new = []"
| "py_replace (c # cs) old new =
     (if old \<noteq> [] \<and> py_startswith (c # cs) old
      then new @ py_replace (drop (length old) (c # cs)) old new
      else c # py_replace cs old new)"
  by pat_completeness auto
termination
  by (relation "measure (\<lambda>(s, old, new). length s)") auto

text \<open>\<open>s.split()\<close>: the maximal runs of non-whitespace characters.\<close>

fun py_words_from :: "env \<Rightarrow> pystr \<Rightarrow> pystr \<Rightarrow> pystr list" where
  "py_words_from E cur [] = (if cur = [] then [] else [cur])"
| "py_words_from E cur (c # cs) =
     (if ch_isspace E c
      then (if cur = [] then py_words_from E [] cs else cur # py_words_from E [] cs)
      else py_words_from E (cur @ [c]) cs)"

definition py_words :: "env \<Rightarrow> pystr \<Rightarrow> pystr list" where
  "py_words E s = py_words_from E [] s"

text \<open>\<open>sep.join(xs)\<close>.\<close>

fun py_join :: "pystr \<Rightarrow> pystr list \<Rightarrow> pystr" where
  "py_join sep [] = []"
| "py_join sep [x] = x"
| "py_join sep (x # y # ys) = x @ sep @ py_join sep (y # ys)"

text \<open>\<open>str(n)\<close> of a non-negative \<open>int\<close>.\<close>

fun str_nat :: "nat \<Rightarrow> pystr" where
  "str_nat n = (if n < 10 then [48 + n] else str_nat (n div 10) @ [48 + n mod 10])"

declare str_nat.simps [simp del]

text \<open>\<open>d[k] = v\<close> on a dictionary: an existing key keeps its place.\<close>

fun dict_set :: "('k \<times> 'v) list \<Rightarrow> 'k \<Rightarrow> 'v \<Rightarrow> ('k \<times> 'v) list" where
  "dict_set [] k v = [(k, v)]"
| "dict_set ((k', v') # d) k v = (if k' = k then (k, v) # d else (k', v') # dict_set d k v)"

section \<open>document_processing.py\<close>

record page_record =
  page_text :: pystr
  page_headers :: "pystr list"

record document_info =
  d_type :: pystr
  d_file_name :: pystr
  d_page_info :: "(nat \<times> page_record) list option"

record uploaded_file =
  f_type :: pystr
  f_name :: pystr
  f_value :: bytes

text \<open>The test of the inner loop of \<open>extract_text_from_pdf\<close>.\<close>

definition header_test :: "env \<Rightarrow> pystr \<Rightarrow> bool" where
  "header_test E line =
     (length (py_strip E line) < 50
      \<and> (list_ex (str_isupper E) (py_words E line) \<or> str_isupper E line))"

text \<open>The inner loop, over \<open>lines[:5]\<close>, appending to \<open>headers\<close>.\<close>

fun scan_headers :: "env \<Rightarrow> pystr list \<Rightarrow> pystr list \<Rightarrow> pystr list" where
  "scan_headers E [] headers = headers"
| "scan_headers E (line # rest) headers =
     scan_headers E rest
       (if header_test E line then headers @ [py_strip E line] else headers)"

text \<open>
  The loop over \<open>enumerate(pdf.pages, 1)\<close>; a page whose extraction raises ends the
  function with that exception.
\<close>

fun pdf_pages_loop ::
  "env \<Rightarrow> (exn + pystr option) list \<Rightarrow> nat \<Rightarrow> pystr \<Rightarrow> (nat \<times> page_record) list
   \<Rightarrow> exn + (pystr \<times> (nat \<times> page_record) list)" where
  "pdf_pages_loop E [] i txt page_info = Inr (txt, page_info)"
| "pdf_pages_loop E (page # pages) i txt page_info =
     (case page of
        Inl e \<Rightarrow> Inl e
      | Inr extracted \<Rightarrow>
          (let ptext = (case extracted of None \<Rightarrow> [] | Some t \<Rightarrow> t);
               txt' = txt @ ptext @ [10, 10];
               lines = py_split ptext [10];
               headers = scan_headers E (take 5 lines) []
           in pdf_pages_loop E pages (i + 1) txt'
                (dict_set page_info i \<lparr> page_text = ptext, page_headers = headers \<rparr>)))"

definition extract_text_from_pdf ::
  "env \<Rightarrow> bytes \<Rightarrow> exn + (pystr \<times> (nat \<times> page_record) list)" where
  "extract_text_from_pdf E file_content =
     (case pdfplumber_open E file_content of
        Inl e \<Rightarrow> Inl e
      | Inr pages \<Rightarrow> pdf_pages_loop E pages 1 [] [])"

definition extract_text_from_docx :: "env \<Rightarrow> bytes \<Rightarrow> exn + pystr" where
  "extract_text_from_docx E file_content =
     (case docx_paragraphs E file_content of
        Inl e \<Rightarrow> Inl e
      | Inr paragraphs \<Rightarrow> Inr (foldl (\<lambda>txt paragraph. txt @ paragraph @ [10]) [] paragraphs))"

definition extract_text_from_image :: "env \<Rightarrow> bytes \<Rightarrow> exn + pystr" where
  "extract_text_from_image E file_content = image_to_string E file_content"

definition extract_text_from_txt :: "env \<Rightarrow> bytes \<Rightarrow> exn + pystr" where
  "extract_text_from_txt E file_content = decode_utf8 E file_content"

text \<open>The body of the \<open>try\<close> block of \<open>extract_text\<close>.\<close>

definition extract_text_body :: "env \<Rightarrow> uploaded_file \<Rightarrow> exn + (pystr \<times> document_info)" where
  "extract_text_body E file =
     (let file_type = f_type file;
          file_content = f_value file;
          info = \<lparr> d_type = file_type, d_file_name = f_name file, d_page_info = None \<rparr>
      in if file_type = S ''application/pdf'' then
           (case extract_text_from_pdf E file_content of
              Inl e \<Rightarrow> Inl e
            | Inr (extracted_text, page_info) \<Rightarrow>
                Inr (extracted_text, info\<lparr>d_page_info := Some page_info\<rparr>))
         else if file_type = S ''application/vnd.openxmlformats-officedocument.wordprocessingml.document'' then
           (case extract_text_from_docx E file_content of
              Inl e \<Rightarrow> Inl e
            | Inr extracted_text \<Rightarrow> Inr (extracted_text, info))
         else if file_type \<in> set [S ''image/png'', S ''image/jpeg'', S ''image/jpg''] then
           (case extract_text_from_image E file_content of
              Inl e \<Rightarrow> Inl e
            | Inr extracted_text \<Rightarrow> Inr (extracted_text, info))
         else if file_type = S ''text/plain'' then
           (case extract_text_from_txt E file_content of
              Inl e \<Rightarrow> Inl e
            | Inr extracted_text \<Rightarrow> Inr (extracted_text, info))
         else Inl (ValueError (S ''Unsupported file type: '' @ file_type)))"

text \<open>
  \<open>extract_text\<close>: the handler shows the error and raises it again.
\<close>

definition extract_text ::
  "env \<Rightarrow> uploaded_file \<Rightarrow> world \<Rightarrow> (exn + (pystr \<times> document_info)) \<times> world" where
  "extract_text E file w =
     (case extract_text_body E file of
        Inl e \<Rightarrow> (Inl e, w\<lparr>ui := ui w @ [StError (S ''Error extracting text: '' @ str_exn e)]\<rparr>)
      | Inr r \<Rightarrow> (Inr r, w))"

section \<open>json.loads\<close>

text \<open>
  The decoder of Python's \<open>json\<close> module with its default settings, as the C scanner
  of CPython runs it: \<open>None\<close> stands for \<open>JSONDecodeError\<close>. A number without
  fraction and exponent is an \<open>int\<close>, any other number goes through \<open>float\<close>; a
  string must not contain a raw control character; a repeated key keeps its first
  position and its last value; after the value only whitespace may follow.

  In \<open>parse_array\<close> and \<open>parse_object\<close> the tests that the rest of the input got
  shorter always succeed, since every scanner consumes at least one character; they
  are written out so that the recursion is seen to end.
\<close>

definition json_ws :: "nat \<Rightarrow> bool" where
  "json_ws c = (c = 32 \<or> c = 9 \<or> c = 10 \<or> c = 13)"

definition skip_ws :: "pystr \<Rightarrow> pystr" where
  "skip_ws s = dropWhile json_ws s"

definition is_digit :: "nat \<Rightarrow> bool" where
  "is_digit c = (48 \<le> c \<and> c \<le> 57)"

definition hex_val :: "nat \<Rightarrow> nat option" where
  "hex_val c =
     (if 48 \<le> c \<and> c \<le> 57 then Some (c - 48)
      else if 97 \<le> c \<and> c \<le> 102 then Some (c - 87)
      else if 65 \<le> c \<and> c \<le> 70 then Some (c - 55)
      else None)"

definition hex4 :: "pystr \<Rightarrow> nat option" where
  "hex4 s =
     (case map hex_val s of
        [Some a, Some b, Some c, Some d] \<Rightarrow> Some (((a * 16 + b) * 16 + c) * 16 + d)
      | _ \<Rightarrow> None)"

definition unescape :: "nat \<Rightarrow> nat option" where
  "unescape e =
     (if e = 34 then Some 34
      else if e = 92 then Some 92
      else if e = 47 then Some 47
      else if e = 98 then Some 8
      else if e = 102 then Some 12
      else if e = 110 then Some 10
      else if e = 114 then Some 13
      else if e = 116 then Some 9
      else None)"

function scanstring :: "pystr \<Rightarrow> pystr \<Rightarrow> (pystr \<times> pystr) option" where
  "scanstring [] acc = None"
| "scanstring (c # cs) acc =
     (if c = 34 then Some (acc, cs)
      else if c = 92 then
        (case cs of
           [] \<Rightarrow> None
         | e # rest \<Rightarrow>
             if e = 117 then
               (case hex4 (take 4 rest) of
                  None \<Rightarrow> None
                | Some hi \<Rightarrow>
                    if 0xD800 \<le> hi \<and> hi \<le> 0xDBFF \<and> py_startswith (drop 4 rest) [92, 117] then
                      (case hex4 (take 4 (drop 6 rest)) of
                         None \<Rightarrow> None
                       | Some lo \<Rightarrow>
                           if 0xDC00 \<le> lo \<and> lo \<le> 0xDFFF
                           then scanstring (drop 10 rest)
                                  (acc @ [0x10000 + (hi - 0xD800) * 1024 + (lo - 0xDC00)])
                           else scanstring (drop 4 rest) (acc @ [hi]))
                    else scanstring (drop 4 rest) (acc @ [hi]))
             else
               (case unescape e of
                  None \<Rightarrow> None
                | Some x \<Rightarrow> scanstring rest (acc @ [x])))
      else if c < 32 then None
      else scanstring cs (acc @ [c]))"
  by pat_completeness auto
termination
  by (relation "measure (\<lambda>(s, acc). length s)") auto

definition nat_of_digits :: "pystr \<Rightarrow> nat" where
  "nat_of_digits ds = foldl (\<lambda>n c. 10 * n + (c - 48)) 0 ds"

definition match_number :: "env \<Rightarrow> pystr \<Rightarrow> (json \<times> pystr) option" where
  "match_number E s =
     (let neg = py_startswith s [45];
          s1 = (if neg then drop 1 s else s)
      in case s1 of
           [] \<Rightarrow> None
         | d # ds \<Rightarrow>
             if \<not> is_digit d then None
             else
               (let digits = (if d = 48 then [d] else takeWhile is_digit s1);
                    r1 = drop (length digits) s1;
                    frac = (case r1 of
                              p # f # fs \<Rightarrow> if p = 46 \<and> is_digit f then p # takeWhile is_digit (f # fs) else []
                            | _ \<Rightarrow> []);
                    r2 = drop (length frac) r1;
                    ex = (case r2 of
                            e # es \<Rightarrow>
                              if e = 101 \<or> e = 69 then
                                (let sgn = (case es of g # gs \<Rightarrow> if g = 43 \<or> g = 45 then [g] else [] | [] \<Rightarrow> []);
                                     eds = takeWhile is_digit (drop (length sgn) es)
                                 in if eds = [] then [] else e # sgn @ eds)
                              else []
                          | [] \<Rightarrow> []);
                    r3 = drop (length ex) r2
                in if frac = [] \<and> ex = []
                   then Some (JInt (if neg then - int (nat_of_digits digits) else int (nat_of_digits digits)), r3)
                   else Some (JFloat (py_float E ((if neg then [45] else []) @ digits @ frac @ ex)), r3)))"

function scan_once :: "env \<Rightarrow> pystr \<Rightarrow> (json \<times> pystr) option"
  and parse_array :: "env \<Rightarrow> pystr \<Rightarrow> json list \<Rightarrow> (json \<times> pystr) option"
  and parse_object :: "env \<Rightarrow> pystr \<Rightarrow> (pystr \<times> json) list \<Rightarrow> (json \<times> pystr) option" where
  "scan_once E [] = None"
| "scan_once E (c # cs) =
     (if c = 34 then
        (case scanstring cs [] of None \<Rightarrow> None | Some (str, rest) \<Rightarrow> Some (JStr str, rest))
      else if c = 123 then
        (if py_startswith (skip_ws cs) [125] then Some (JObj [], drop 1 (skip_ws cs))
         else parse_object E (skip_ws cs) [])
      else if c = 91 then
        (if py_startswith (skip_ws cs) [93] then Some (JArr [], drop 1 (skip_ws cs))
         else parse_array E (skip_ws cs) [])
      else if py_startswith (c # cs) (S ''null'') then Some (JNull, drop 4 (c # cs))
      else if py_startswith (c # cs) (S ''true'') then Some (JBool True, drop 4 (c # cs))
      else if py_startswith (c # cs) (S ''false'') then Some (JBool False, drop 5 (c # cs))
      else if py_startswith (c # cs) (S ''NaN'') then Some (JFloat NaN, drop 3 (c # cs))
      else if py_startswith (c # cs) (S ''Infinity'') then Some (JFloat PosInf, drop 8 (c # cs))
      else if py_startswith (c # cs) (S ''-Infinity'') then Some (JFloat NegInf, drop 9 (c # cs))
      else match_number E (c # cs))"
| "parse_array E s acc =
     (case scan_once E s of
        None \<Rightarrow> None
      | Some (v, rest) \<Rightarrow>
          if length rest < length s then
            (case skip_ws rest of
               [] \<Rightarrow> None
             | d # rest' \<Rightarrow>
                 if d = 93 then Some (JArr (acc @ [v]), rest')
                 else if d = 44 then parse_array E (skip_ws rest') (acc @ [v])
                 else None)
          else None)"
| "parse_object E s pairs =
     (case s of
        [] \<Rightarrow> None
      | q # cs \<Rightarrow>
          if q \<noteq> 34 then None
          else
            (case scanstring cs [] of
               None \<Rightarrow> None
             | Some (key, rest) \<Rightarrow>
                 if length rest < length s then
                 (case skip_ws rest of
                    [] \<Rightarrow> None
                  | col # rest1 \<Rightarrow>
                      if col \<noteq> 58 then None
                      else
                        (case scan_once E (skip_ws rest1) of
                           None \<Rightarrow> None
                         | Some (v, rest2) \<Rightarrow>
                             if length rest2 < length (skip_ws rest1) then
                               (case skip_ws rest2 of
                                  [] \<Rightarrow> None
                                | d # rest3 \<Rightarrow>
                                    if d = 125 then Some (JObj (dict_set pairs key v), rest3)
                                    else if d = 44
                                    then parse_object E (skip_ws rest3) (dict_set pairs key v)
                                    else None)
                             else None))
                 else None))"
  by pat_completeness auto
termination
proof -
  have ws: "\<And>s. length (skip_ws s) \<le> length s"
    by (simp add: skip_ws_def length_dropWhile_le)
  have step: "\<And>s d r. skip_ws s = d # r \<Longrightarrow> length (skip_ws r) < length s"
  proof -
    fix s :: pystr and d r assume "skip_ws s = d # r"
    then have "length r < length (skip_ws s)" by simp
    then show "length (skip_ws r) < length s"
      using ws [of s] ws [of r] by linarith
  qed
  show ?thesis
    apply (relation "measure (\<lambda>x. case x of
              Inl (E, s) \<Rightarrow> 2 * length s
            | Inr (Inl (E, s, acc)) \<Rightarrow> 2 * length s + 1
            | Inr (Inr (E, s, pairs)) \<Rightarrow> 2 * length s + 1)")
          apply (auto simp: le_imp_less_Suc ws dest!: step)
    done
qed

definition json_loads :: "env \<Rightarrow> pystr \<Rightarrow> json option" where
  "json_loads E s =
     (case scan_once E (skip_ws s) of
        None \<Rightarrow> None
      | Some (v, rest) \<Rightarrow> if skip_ws rest = [] then Some v else None)"

text \<open>
  Reading the result: the text of a page (empty when extraction yields nothing) and the
  entry that \<open>page_info\<close> holds for it.
\<close>

definition page_string :: "exn + pystr option \<Rightarrow> pystr" where
  "page_string page = (case page of Inr (Some t) \<Rightarrow> t | _ \<Rightarrow> [])"

definition page_entry :: "env \<Rightarrow> exn + pystr option \<Rightarrow> page_record" where
  "page_entry E page =
     \<lparr> page_text = page_string page,
       page_headers = scan_headers E (take 5 (py_split (page_string page) [10])) [] \<rparr>"

section \<open>gemini_integration.py\<close>

text \<open>
  \<open>setup_gemini\<close>: a credential that is absent or empty is reported and refused;
  \<open>genai.configure\<close> only stores the key.
\<close>

definition setup_gemini :: "env \<Rightarrow> world \<Rightarrow> bool \<times> world" where
  "setup_gemini E w =
     (if API_KEY E = None \<or> API_KEY E = Some []
      then (False, w\<lparr>ui := ui w @
              [StError (S ''Gemini API key not found. Please set the GEMINI_API_KEY environment variable.'')]\<rparr>)
      else (True, w))"

text \<open>
  \<open>model.generate_content(prompt)\<close> followed by \<open>.text\<close>: one request, recorded, whose
  outcome is the response text or the exception raised.
\<close>

definition call_model :: "env \<Rightarrow> pystr \<Rightarrow> world \<Rightarrow> (exn + pystr) \<times> world" where
  "call_model E prompt w = (generate_content E (calls w) prompt, w\<lparr>calls := calls w @ [prompt]\<rparr>)"

text \<open>The classification prompt, the same in \<open>generate_summary\<close> and \<open>answer_question\<close>.\<close>

definition verification_prompt :: "pystr \<Rightarrow> pystr" where
  \<open>verification_prompt text =
     S ''\<newline>'' @
     S ''        You are an insurance policy expert. Review the following document text and determine if it is an auto insurance policy.\<newline>'' @
     S ''\<newline>'' @
     S ''        Document text:\<newline>'' @
     S ''        '' @
     take 1500 text @
     S ''  # Using first 1500 chars to save tokens\<newline>'' @
     S ''\<newline>'' @
     S ''        Is this document an auto insurance policy? \<newline>'' @
     S ''        Respond with only "yes" if it is an auto insurance policy document.\<newline>'' @
     S ''        Respond with "no: [document type]" if it is not, where [document type] is a brief description of what the document actually is.\<newline>'' @
     S ''        ''\<close>

text \<open>The two readability directives of \<open>generate_summary\<close>.\<close>

definition summary_target_easy :: "pystr" where
  \<open>summary_target_easy =
     S ''\<newline>'' @
     S ''            VERY IMPORTANT: Your summary MUST be written at an elementary school reading level (Flesch-Kincaid score between 71-100). \<newline>'' @
     S ''            Use very short sentences (10-15 words), simple words (1-2 syllables), and basic everyday vocabulary.\<newline>'' @
     S ''            Completely avoid complex terms, technical jargon, and legal language.\<newline>'' @
     S ''            ''\<close>

definition summary_target_moderate :: "pystr" where
  \<open>summary_target_moderate =
     S ''\<newline>'' @
     S ''            VERY IMPORTANT: Your summary MUST be written at a high school reading level (Flesch-Kincaid score between 51-70). \<newline>'' @
     S ''            Use moderate-length sentences (15-20 words), simple to moderate vocabulary, and clear explanations.\<newline>'' @
     S ''            Minimize complex terms, technical jargon, and legal language, but you can include more detail than in an elementary-level summary.\<newline>'' @
     S ''            ''\<close>

text \<open>The summarisation prompt.\<close>

definition summary_prompt :: "pystr \<Rightarrow> pystr \<Rightarrow> pystr \<Rightarrow> pystr \<Rightarrow> pystr" where
  \<open>summary_prompt audience text reference_info readability_target =
     S ''\<newline>'' @
     S ''        You are an insurance policy expert. Analyze the following auto insurance policy text and provide a clear, \<newline>'' @
     S ''        structured summary in plain language that a typical '' @
     audience @
     S '' can understand. \<newline>'' @
     S ''        \<newline>'' @
     S ''        Policy text:\<newline>'' @
     S ''        '' @
     text @
     S ''\<newline>'' @
     S ''        \<newline>'' @
     S ''        '' @
     reference_info @
     S ''\<newline>'' @
     S ''        \<newline>'' @
     S ''        Please format your response as a JSON object with the following sections:\<newline>'' @
     S ''        1. coverage_details: List of what is covered in plain language.\<newline>'' @
     S ''        2. exclusions: List of what is not covered.\<newline>'' @
     S ''        3. deductibles: List explaining deductible amounts and when they apply.\<newline>'' @
     S ''        4. premiums: List explaining the premium structure and payment details.\<newline>'' @
     S ''        5. claims_process: List summarizing how to file a claim and what to expect.\<newline>'' @
     S ''        6. unusual_clauses: List identifying any unusual or potentially hidden clauses that consumers should be aware of.\<newline>'' @
     S ''        \<newline>'' @
     S ''        Each section should contain an array of strings, with each string being a clear, simple bullet point.\<newline>'' @
     S ''        When possible, include the page number or section reference where this information is found (e.g., "Coverage for rentals is included (Page 3, RENTAL COVERAGE section)").\<newline>'' @
     S ''        \<newline>'' @
     S ''        '' @
     readability_target @
     S ''\<newline>'' @
     S ''        \<newline>'' @
     S ''        If information for a section is not found, provide an empty array.\<newline>'' @
     S ''        Ensure your response is valid JSON that can be parsed by Python's json.loads().\<newline>'' @
     S ''        ''\<close>

text \<open>The two readability directives of \<open>answer_question\<close>.\<close>

definition answer_target_easy :: "pystr" where
  \<open>answer_target_easy =
     S ''\<newline>'' @
     S ''            VERY IMPORTANT: Your answer MUST be written at an elementary school reading level (Flesch-Kincaid score between 71-100). \<newline>'' @
     S ''            Use very short sentences (10-15 words), simple words (1-2 syllables), and basic everyday vocabulary.\<newline>'' @
     S ''            Completely avoid complex terms, technical jargon, and legal language.\<newline>'' @
     S ''            ''\<close>

definition answer_target_moderate :: "pystr" where
  \<open>answer_target_moderate =
     S ''\<newline>'' @
     S ''            VERY IMPORTANT: Your answer MUST be written at a high school reading level (Flesch-Kincaid score between 51-70). \<newline>'' @
     S ''            Use moderate-length sentences (15-20 words), simple to moderate vocabulary, and clear explanations.\<newline>'' @
     S ''            Minimize complex terms, technical jargon, and legal language, but you can include more detail than in an elementary-level answer.\<newline>'' @
     S ''            ''\<close>

text \<open>The question prompt.\<close>

definition answer_prompt :: "pystr \<Rightarrow> pystr \<Rightarrow> pystr \<Rightarrow> pystr \<Rightarrow> pystr" where
  \<open>answer_prompt document_text reference_info question readability_target =
     S ''\<newline>'' @
     S ''        You are an insurance policy expert. Answer the following question about an auto insurance policy \<newline>'' @
     S ''        based on the policy text provided. When possible, cite specific page numbers and sections from the policy.\<newline>'' @
     S ''        \<newline>'' @
     S ''        Policy text:\<newline>'' @
     S ''        '' @
     document_text @
     S ''\<newline>'' @
     S ''        \<newline>'' @
     S ''        '' @
     reference_info @
     S ''\<newline>'' @
     S ''        \<newline>'' @
     S ''        Question: '' @
     question @
     S ''\<newline>'' @
     S ''        \<newline>'' @
     S ''        Provide a clear, accurate answer based solely on the content of the policy. If the information is not \<newline>'' @
     S ''        found in the policy, state that clearly. Format your response in plain language that's easy to understand.\<newline>'' @
     S ''        When relevant, include page numbers and section references in your answer (e.g., "According to Page 3, RENTAL COVERAGE section, your policy covers...").\<newline>'' @
     S ''        \<newline>'' @
     S ''        '' @
     readability_target @
     S ''\<newline>'' @
     S ''        ''\<close>

text \<open>The dictionary literal that the function returns on each of its degraded paths.\<close>

definition summary_of_message :: "pystr \<Rightarrow> json" where
  "summary_of_message msg =
     JObj [(S ''coverage_details'', JArr [JStr msg]),
           (S ''exclusions'', JArr []),
           (S ''deductibles'', JArr []),
           (S ''premiums'', JArr []),
           (S ''claims_process'', JArr []),
           (S ''unusual_clauses'', JArr [])]"

definition expected_keys :: "pystr list" where
  "expected_keys =
     [S ''coverage_details'', S ''exclusions'', S ''deductibles'',
      S ''premiums'', S ''claims_process'', S ''unusual_clauses'']"

text \<open>The description of the document taken from a non-affirmative verdict.\<close>

definition document_type :: "env \<Rightarrow> pystr \<Rightarrow> pystr" where
  "document_type E verification_result =
     (if py_in_str (S '':'') verification_result
      then py_strip E (py_replace verification_result (S ''no:'') [])
      else S ''not an auto insurance policy'')"

text \<open>The loop that builds \<open>reference_info\<close>.\<close>

fun reference_lines :: "(nat \<times> page_record) list \<Rightarrow> pystr \<Rightarrow> pystr" where
  "reference_lines [] reference_info = reference_info"
| "reference_lines ((page_num, pinfo) # rest) reference_info =
     reference_lines rest
       (if page_headers pinfo \<noteq> []
        then reference_info @ S ''Page '' @ str_nat page_num @ S '': ''
               @ py_join (S '', '') (page_headers pinfo) @ S ''\<newline>''
        else reference_info @ S ''Page '' @ str_nat page_num @ S ''\<newline>'')"

definition reference_info_of :: "document_info option \<Rightarrow> pystr" where
  "reference_info_of document_info =
     (case document_info of
        None \<Rightarrow> []
      | Some di \<Rightarrow>
          if d_type di = S ''application/pdf'' then
            (case d_page_info di of
               None \<Rightarrow> []
             | Some page_info \<Rightarrow> reference_lines page_info (S ''Page and section information:\<newline>''))
          else [])"

text \<open>
  The prompt of the main request, built from the reference information, the readability
  directive and (for a summary) the audience that the preference selects.
\<close>

definition summary_request :: "pystr \<Rightarrow> document_info option \<Rightarrow> pystr \<Rightarrow> pystr" where
  "summary_request text document_info readability_preference =
     (let reference_info = reference_info_of document_info;
          readability_target =
            (if readability_preference = S ''Easy (Elementary School Level)''
             then summary_target_easy else summary_target_moderate);
          audience =
            (if readability_preference = S ''Easy (Elementary School Level)''
             then S ''elementary school student'' else S ''high school student'')
      in summary_prompt audience text reference_info readability_target)"

definition answer_request :: "pystr \<Rightarrow> pystr \<Rightarrow> document_info option \<Rightarrow> pystr \<Rightarrow> pystr" where
  "answer_request question document_text document_info readability_preference =
     (let reference_info = reference_info_of document_info;
          readability_target =
            (if readability_preference = S ''Easy (Elementary School Level)''
             then answer_target_easy else answer_target_moderate)
      in answer_prompt document_text reference_info question readability_target)"

text \<open>\<open>xs[i]\<close> for a non-negative index.\<close>

definition py_index :: "'a list \<Rightarrow> nat \<Rightarrow> exn + 'a" where
  "py_index xs i =
     (if i < length xs then Inr (xs ! i) else Inl (IndexError (S ''list index out of range'')))"

text \<open>The payload: the response text without its code fence, if it has one.\<close>

definition json_content_of :: "env \<Rightarrow> pystr \<Rightarrow> exn + pystr" where
  "json_content_of E response_text =
     (if py_in_str (S ''```json'') response_text \<and> py_in_str (S ''```'') response_text then
        (case py_index (py_split response_text (S ''```json'')) 1 of
           Inl e \<Rightarrow> Inl e
         | Inr part \<Rightarrow>
             (case py_index (py_split part (S ''```'')) 0 of
                Inl e \<Rightarrow> Inl e
              | Inr inner \<Rightarrow> Inr (py_strip E inner)))
      else if py_in_str (S ''```'') response_text then
        (case py_index (py_split response_text (S ''```'')) 1 of
           Inl e \<Rightarrow> Inl e
         | Inr part \<Rightarrow>
             (case py_index (py_split part (S ''```'')) 0 of
                Inl e \<Rightarrow> Inl e
              | Inr inner \<Rightarrow> Inr (py_strip E inner)))
      else Inr response_text)"

text \<open>
  \<open>key in summary\<close> and \<open>summary[key] = []\<close> on whatever value \<open>json.loads\<close>
  returned, with the \<open>TypeError\<close> of CPython where the value does not support them.
\<close>

fun py_contains :: "json \<Rightarrow> pystr \<Rightarrow> exn + bool" where
  "py_contains (JObj d) key = Inr (key \<in> set (map fst d))"
| "py_contains (JArr xs) key = Inr (JStr key \<in> set xs)"
| "py_contains (JStr s) key = Inr (py_in_str key s)"
| "py_contains JNull key = Inl (TypeError (S ''argument of type 'NoneType' is not iterable''))"
| "py_contains (JBool b) key = Inl (TypeError (S ''argument of type 'bool' is not iterable''))"
| "py_contains (JInt i) key = Inl (TypeError (S ''argument of type 'int' is not iterable''))"
| "py_contains (JFloat f) key = Inl (TypeError (S ''argument of type 'float' is not iterable''))"

fun py_setitem :: "json \<Rightarrow> pystr \<Rightarrow> json \<Rightarrow> exn + json" where
  "py_setitem (JObj d) key v = Inr (JObj (dict_set d key v))"
| "py_setitem (JArr xs) key v = Inl (TypeError (S ''list indices must be integers or slices, not str''))"
| "py_setitem (JStr s) key v = Inl (TypeError (S '''str' object does not support item assignment''))"
| "py_setitem JNull key v = Inl (TypeError (S '''NoneType' object does not support item assignment''))"
| "py_setitem (JBool b) key v = Inl (TypeError (S '''bool' object does not support item assignment''))"
| "py_setitem (JInt i) key v = Inl (TypeError (S '''int' object does not support item assignment''))"
| "py_setitem (JFloat f) key v = Inl (TypeError (S '''float' object does not support item assignment''))"

text \<open>The loop over \<open>expected_keys\<close>.\<close>

fun ensure_keys :: "json \<Rightarrow> pystr list \<Rightarrow> exn + json" where
  "ensure_keys summary [] = Inr summary"
| "ensure_keys summary (key # keys) =
     (case py_contains summary key of
        Inl e \<Rightarrow> Inl e
      | Inr True \<Rightarrow> ensure_keys summary keys
      | Inr False \<Rightarrow>
          (case py_setitem summary key (JArr []) of
             Inl e \<Rightarrow> Inl e
           | Inr summary' \<Rightarrow> ensure_keys summary' keys))"

text \<open>
  From the response text to the summary: the payload is cut out, every backslash in it
  is doubled, and the result is parsed; a payload that does not parse is replaced, with
  a warning, by the fixed dictionary.
\<close>

definition parse_response :: "env \<Rightarrow> pystr \<Rightarrow> world \<Rightarrow> (exn + json) \<times> world" where
  "parse_response E response_text w =
     (case json_content_of E response_text of
        Inl e \<Rightarrow> (Inl e, w)
      | Inr json_content \<Rightarrow>
          (case json_loads E (py_replace json_content [92] [92, 92]) of
             Some summary \<Rightarrow> (ensure_keys summary expected_keys, w)
           | None \<Rightarrow>
               (ensure_keys
                  (summary_of_message
                     (S ''Could not generate detailed summary. Please try uploading the document again.''))
                  expected_keys,
                w\<lparr>ui := ui w @
                  [StWarning (S ''Could not parse model response as JSON. Creating simplified summary.'')]\<rparr>)))"

text \<open>The body of the \<open>try\<close> block of \<open>generate_summary\<close>.\<close>

definition generate_summary_body ::
  "env \<Rightarrow> pystr \<Rightarrow> document_info option \<Rightarrow> pystr \<Rightarrow> world \<Rightarrow> (exn + json) \<times> world" where
  "generate_summary_body E text document_info readability_preference w =
     (case call_model E (verification_prompt text) w of
        (Inl e, w1) \<Rightarrow> (Inl e, w1)
      | (Inr verification_text, w1) \<Rightarrow>
          (let verification_result = str_lower E (py_strip E verification_text)
           in if \<not> py_startswith verification_result (S ''yes'') then
                (Inr (summary_of_message
                        (S ''This document appears to be '' @ document_type E verification_result
                           @ S ''. Please upload an auto insurance policy document.'')),
                 w1)
              else
                (case call_model E (summary_request text document_info readability_preference) w1 of
                   (Inl e, w2) \<Rightarrow> (Inl e, w2)
                 | (Inr response_text, w2) \<Rightarrow> parse_response E response_text w2)))"

definition generate_summary ::
  "env \<Rightarrow> pystr \<Rightarrow> document_info option \<Rightarrow> pystr \<Rightarrow> world \<Rightarrow> json \<times> world" where
  "generate_summary E text document_info readability_preference w =
     (case setup_gemini E w of
        (False, w1) \<Rightarrow>
          (summary_of_message (S ''API key not configured. Unable to generate summary.''), w1)
      | (True, w1) \<Rightarrow>
          (case generate_summary_body E text document_info readability_preference w1 of
             (Inr summary, w2) \<Rightarrow> (summary, w2)
           | (Inl e, w2) \<Rightarrow>
               (summary_of_message (S ''Error generating summary: '' @ str_exn e),
                w2\<lparr>ui := ui w2 @
                  [StError (S ''Error generating summary with Gemini API: '' @ str_exn e)]\<rparr>)))"

text \<open>The body of the \<open>try\<close> block of \<open>answer_question\<close>.\<close>

definition answer_question_body ::
  "env \<Rightarrow> pystr \<Rightarrow> pystr \<Rightarrow> document_info option \<Rightarrow> pystr \<Rightarrow> world \<Rightarrow> (exn + pystr) \<times> world" where
  "answer_question_body E question document_text document_info readability_preference w =
     (case call_model E (verification_prompt document_text) w of
        (Inl e, w1) \<Rightarrow> (Inl e, w1)
      | (Inr verification_text, w1) \<Rightarrow>
          (let verification_result = str_lower E (py_strip E verification_text)
           in if \<not> py_startswith verification_result (S ''yes'') then
                (Inr (S ''I cannot answer your question because this document appears to be ''
                        @ document_type E verification_result
                        @ S ''. Please upload an auto insurance policy document.''),
                 w1)
              else
                call_model E
                  (answer_request question document_text document_info readability_preference) w1))"

definition answer_question ::
  "env \<Rightarrow> pystr \<Rightarrow> pystr \<Rightarrow> document_info option \<Rightarrow> pystr \<Rightarrow> world \<Rightarrow> pystr \<times> world" where
  "answer_question E question document_text document_info readability_preference w =
     (case setup_gemini E w of
        (False, w1) \<Rightarrow> (S ''API key not configured. Unable to answer questions.'', w1)
      | (True, w1) \<Rightarrow>
          (case answer_question_body E question document_text document_info readability_preference w1 of
             (Inr answer, w2) \<Rightarrow> (answer, w2)
           | (Inl e, w2) \<Rightarrow>
               (S ''Sorry, I couldn't process your question due to an error: '' @ str_exn e,
                w2\<lparr>ui := ui w2 @
                  [StError (S ''Error answering question with Gemini API: '' @ str_exn e)]\<rparr>)))"

section \<open>pdf_export.py\<close>

text \<open>
  \<open>f"{x:.1f}"\<close>: the decimal with one fractional digit nearest to the exact value,
  a tie going to the even digit; the sign of a negative value is kept even when it
  rounds to zero. The special floats print as words.
\<close>

definition round_half_even :: "real \<Rightarrow> int" where
  "round_half_even x =
     (let f = \<lfloor>x\<rfloor>; d = x - of_int f
      in if d < 1 / 2 then f else if 1 / 2 < d then f + 1 else if even f then f else f + 1)"

definition format_1f :: "pynum \<Rightarrow> pystr" where
  "format_1f x =
     (case x of
        NaN \<Rightarrow> S ''nan''
      | PosInf \<Rightarrow> S ''inf''
      | NegInf \<Rightarrow> S ''-inf''
      | Num r \<Rightarrow>
          (let n = nat (round_half_even (\<bar>r\<bar> * 10))
           in (if r < 0 then S ''-'' else []) @ str_nat (n div 10) @ S ''.'' @ str_nat (n mod 10)))"

text \<open>What Python makes of a value as a condition, as a type name and as a loop range.\<close>

fun truthy :: "json \<Rightarrow> bool" where
  "truthy JNull = False"
| "truthy (JBool b) = b"
| "truthy (JInt i) = (i \<noteq> 0)"
| "truthy (JFloat f) = (f \<noteq> Num 0)"
| "truthy (JStr s) = (s \<noteq> [])"
| "truthy (JArr xs) = (xs \<noteq> [])"
| "truthy (JObj d) = (d \<noteq> [])"

fun type_name :: "json \<Rightarrow> pystr" where
  "type_name JNull = S ''NoneType''"
| "type_name (JBool b) = S ''bool''"
| "type_name (JInt i) = S ''int''"
| "type_name (JFloat f) = S ''float''"
| "type_name (JStr s) = S ''str''"
| "type_name (JArr xs) = S ''list''"
| "type_name (JObj d) = S ''dict''"

fun py_iter :: "json \<Rightarrow> exn + json list" where
  "py_iter (JArr xs) = Inr xs"
| "py_iter (JStr s) = Inr (map (\<lambda>c. JStr [c]) s)"
| "py_iter (JObj d) = Inr (map (\<lambda>(k, v). JStr k) d)"
| "py_iter v = Inl (TypeError ([39] @ type_name v @ [39] @ S '' object is not iterable''))"

text \<open>\<open>d.get(key, default)\<close>.\<close>

definition dict_get :: "(pystr \<times> json) list \<Rightarrow> pystr \<Rightarrow> json \<Rightarrow> json" where
  "dict_get d key dflt = (case map_of d key of Some v \<Rightarrow> v | None \<Rightarrow> dflt)"

text \<open>
  The three characters of the pattern that \<open>generate_pdf\<close> replaces in an item:
  U+00E2, U+20AC, U+00A2.
\<close>

definition bullet_pattern :: pystr where
  "bullet_pattern = [226, 8364, 162]"

text \<open>The loop over the items of one section; an item that is no string has no \<open>replace\<close>.\<close>

fun render_items :: "json list \<Rightarrow> exn + pdf_op list" where
  "render_items [] = Inr []"
| "render_items (item # rest) =
     (case item of
        JStr s \<Rightarrow>
          (case render_items rest of
             Inl e \<Rightarrow> Inl e
           | Inr ops \<Rightarrow> Inr (MultiCell 0 7 (S ''- '' @ py_replace s bullet_pattern (S ''-'')) # ops))
      | _ \<Rightarrow>
          Inl (AttributeError
                 ([39] @ type_name item @ [39] @ S '' object has no attribute '' @ [39] @ S ''replace'' @ [39])))"

text \<open>The loop over \<open>sections\<close>.\<close>

fun render_sections :: "(pystr \<times> json) list \<Rightarrow> exn + pdf_op list" where
  "render_sections [] = Inr []"
| "render_sections ((title, items) # rest) =
     (if truthy items then
        (case py_iter items of
           Inl e \<Rightarrow> Inl e
         | Inr xs \<Rightarrow>
             (case render_items xs of
                Inl e \<Rightarrow> Inl e
              | Inr bullets \<Rightarrow>
                  (case render_sections rest of
                     Inl e \<Rightarrow> Inl e
                   | Inr ops \<Rightarrow>
                       Inr ([SetFont (S ''Arial'') (S ''B'') 11,
                             Cell 0 10 title True [],
                             SetFont (S ''Arial'') [] 10]
                            @ bullets @ [Ln 3] @ ops))))
      else render_sections rest)"

text \<open>The list \<open>sections\<close>; only a dictionary has \<open>get\<close>.\<close>

definition summary_sections :: "json \<Rightarrow> exn + (pystr \<times> json) list" where
  "summary_sections summary =
     (case summary of
        JObj d \<Rightarrow>
          Inr [(S ''Coverage Details'', dict_get d (S ''coverage_details'') (JArr [])),
               (S ''Exclusions'', dict_get d (S ''exclusions'') (JArr [])),
               (S ''Deductibles'', dict_get d (S ''deductibles'') (JArr [])),
               (S ''Premiums'', dict_get d (S ''premiums'') (JArr [])),
               (S ''Claims Process'', dict_get d (S ''claims_process'') (JArr [])),
               (S ''Unusual or Hidden Clauses'', dict_get d (S ''unusual_clauses'') (JArr []))]
      | _ \<Rightarrow>
          Inl (AttributeError
                 ([39] @ type_name summary @ [39] @ S '' object has no attribute '' @ [39] @ S ''get'' @ [39])))"

text \<open>
  The calls made on the \<open>FPDF\<close> object up to \<open>output\<close>. The summary is \<open>None\<close> or a
  value; the score is a number.
\<close>

definition pdf_document :: "env \<Rightarrow> json option \<Rightarrow> pystr \<Rightarrow> pynum \<Rightarrow> exn + pdf_op list" where
  "pdf_document E summary original_text readability_score =
     (let difficulty =
            (if num_le readability_score (Num 50) then S ''Very Difficult''
             else if num_le readability_score (Num 70) then S ''Moderate''
             else S ''Clear'');
          front =
            [AddPage,
             SetFont (S ''Arial'') (S ''B'') 16,
             Cell 0 10 (S ''ClearInsurance - Policy Summary'') True (S ''C''),
             Line 10 20 200 20,
             Ln 5,
             SetFont (S ''Arial'') (S ''I'') 10,
             Cell 0 10 (S ''Generated on: '' @ strftime_now E) True [],
             Ln 5,
             SetFont (S ''Arial'') (S ''B'') 12,
             Cell 0 10 (S ''Readability Analysis'') True [],
             SetFont (S ''Arial'') [] 10,
             Cell 0 10 (S ''Readability Score: '' @ format_1f readability_score @ S '' - '' @ difficulty)
               True [],
             Ln 5,
             SetFont (S ''Arial'') (S ''B'') 12,
             Cell 0 10 (S ''Policy Summary'') True []];
          body =
            (case summary of
               None \<Rightarrow> Inr []
             | Some s \<Rightarrow>
                 if truthy s then
                   (case summary_sections s of
                      Inl e \<Rightarrow> Inl e
                    | Inr sections \<Rightarrow> render_sections sections)
                 else Inr []);
          back =
            [Ln 5,
             SetFont (S ''Arial'') (S ''I'') 8,
             MultiCell 0 5
               (S ''Disclaimer: This summary was generated using AI technology and is intended as a guide only. ''
                @ S ''It is not a legal interpretation of your insurance policy. ''
                @ S ''Always consult with an insurance professional for important decisions.'')]
      in case body of
           Inl e \<Rightarrow> Inl e
         | Inr sections_ops \<Rightarrow> Inr (front @ sections_ops @ back))"

definition generate_pdf :: "env \<Rightarrow> json option \<Rightarrow> pystr \<Rightarrow> pynum \<Rightarrow> exn + bytes" where
  "generate_pdf E summary original_text readability_score =
     (case pdf_document E summary original_text readability_score of
        Inl e \<Rightarrow> Inl e
      | Inr ops \<Rightarrow> fpdf_output E ops)"





section \<open>A stub environment\<close>

text \<open>
  An environment for running the model on concrete inputs: the character tables of
  ASCII, a model that answers its i-th call with the i-th scripted reply, a reading-ease
  function given as a table, and libraries that fail. No input used below contains a
  number with a fraction or an exponent, so \<open>float\<close> is never consulted.
\<close>

definition ascii_isspace :: "nat \<Rightarrow> bool" where
  "ascii_isspace c = (c \<in> {9, 10, 11, 12, 13, 28, 29, 30, 31, 32})"

definition ascii_lower :: "pystr \<Rightarrow> pystr" where
  "ascii_lower s = map (\<lambda>c. if 65 \<le> c \<and> c \<le> 90 then c + 32 else c) s"

definition ascii_isupper :: "pystr \<Rightarrow> bool" where
  "ascii_isupper s = ((\<exists>c \<in> set s. 65 \<le> c \<and> c \<le> 90) \<and> (\<forall>c \<in> set s. \<not> (97 \<le> c \<and> c \<le> 122)))"

definition scripted :: "(exn + pystr) list \<Rightarrow> pystr list \<Rightarrow> pystr \<Rightarrow> exn + pystr" where
  "scripted replies sent prompt =
     (if length sent < length replies then replies ! length sent
      else Inl (LibraryError (S ''no reply scripted'')))"

definition stub_env :: "pystr option \<Rightarrow> (exn + pystr) list \<Rightarrow> (pystr \<Rightarrow> exn + pynum) \<Rightarrow> env" where
  "stub_env key replies ease =
     \<lparr> ch_isspace = ascii_isspace,
       str_lower = ascii_lower,
       str_isupper = ascii_isupper,
       API_KEY = key,
       generate_content = scripted replies,
       py_float = (\<lambda>lit. NaN),
       flesch_reading_ease = ease,
       pdfplumber_open = (\<lambda>b. Inl (LibraryError (S ''not a PDF''))),
       docx_paragraphs = (\<lambda>b. Inl (LibraryError (S ''not a DOCX''))),
       image_to_string = (\<lambda>b. Inl (LibraryError (S ''not an image''))),
       decode_utf8 = (\<lambda>b. Inl (LibraryError (S ''invalid utf-8''))),
       strftime_now = S ''2024-01-01 00:00'',
       fpdf_output = (\<lambda>ops. Inr []) \<rparr>"

definition stub_pdf :: "(exn + pystr option) list \<Rightarrow> env" where
  "stub_pdf pages = (stub_env None [] (\<lambda>t. Inr (Num 0)))\<lparr>pdfplumber_open := (\<lambda>b. Inr pages)\<rparr>"

definition w0 :: world where
  "w0 = \<lparr> calls = [], ui = [], printed = [] \<rparr>"

section \<open>Readability scorer\<close>

lemma py_clamp_cases:
  "\<exists>r. py_max (Num 0) (py_min (Num 100) x) = Num r \<and> 0 \<le> r \<and> r \<le> 100"
  by (cases x) (auto simp: py_max_def py_min_def)

text \<open>
  C2. For every text, whatever the reading-ease library answers, the score returned by
  \<open>calculate_readability_score\<close> is a finite number between 0 and 100; for an empty or
  whitespace-only text it is 0; and when the library raises, the exception is caught and
  the score is 0.
\<close>

theorem calculate_readability_score_bounded:
  "(\<exists>r. fst (calculate_readability_score E text w) = Num r \<and> 0 \<le> r \<and> r \<le> 100)
   \<and> (py_strip E text = [] \<longrightarrow> fst (calculate_readability_score E text w) = Num 0)
   \<and> (\<forall>e. flesch_reading_ease E text = Inl e \<longrightarrow> fst (calculate_readability_score E text w) = Num 0)"
proof (intro conjI allI impI)
  show "\<exists>r. fst (calculate_readability_score E text w) = Num r \<and> 0 \<le> r \<and> r \<le> 100"
    using py_clamp_cases
    by (auto simp: calculate_readability_score_def split: sum.splits)
next
  assume "py_strip E text = []"
  then show "fst (calculate_readability_score E text w) = Num 0"
    by (simp add: calculate_readability_score_def)
next
  fix e assume "flesch_reading_ease E text = Inl e"
  then show "fst (calculate_readability_score E text w) = Num 0"
    by (simp add: calculate_readability_score_def)
qed

theorem calculate_readability_score_bounded_witness:
  "py_strip (stub_env None [] (\<lambda>t. Inl (LibraryError (S ''boom'')))) (S '' '') = []
   \<and> fst (calculate_readability_score (stub_env None [] (\<lambda>t. Inl (LibraryError (S ''boom'')))) (S '' '') w0) = Num 0
   \<and> flesch_reading_ease (stub_env None [] (\<lambda>t. Inl (LibraryError (S ''boom'')))) (S ''abc'')
       = Inl (LibraryError (S ''boom''))
   \<and> fst (calculate_readability_score (stub_env None [] (\<lambda>t. Inl (LibraryError (S ''boom'')))) (S ''abc'') w0) = Num 0"
  using calculate_readability_score_bounded
          [of "stub_env None [] (\<lambda>t. Inl (LibraryError (S ''boom'')))" "S '' ''" w0]
        calculate_readability_score_bounded
          [of "stub_env None [] (\<lambda>t. Inl (LibraryError (S ''boom'')))" "S ''abc''" w0]
  by (simp add: stub_env_def py_strip_def S_def ascii_isspace_def)

section \<open>Text extractor\<close>

lemma dict_set_fresh: "k \<notin> fst ` set d \<Longrightarrow> dict_set d k v = d @ [(k, v)]"
  by (induction d) auto

lemma scan_headers_eq:
  "scan_headers E ls acc = acc @ map (py_strip E) (filter (header_test E) ls)"
  by (induction ls arbitrary: acc) auto

lemma pdf_pages_loop_ok:
  "\<forall>p \<in> set pages. \<exists>x. p = Inr x \<Longrightarrow> \<forall>k \<in> fst ` set pinf. k < i \<Longrightarrow>
   pdf_pages_loop E pages i tx pinf =
     Inr (tx @ concat (map (\<lambda>p. page_string p @ [10, 10]) pages),
          pinf @ map (\<lambda>k. (i + k, page_entry E (pages ! k))) [0..<length pages])"
proof (induction pages arbitrary: i tx pinf)
  case Nil
  then show ?case by simp
next
  case (Cons page pages)
  from Cons.prems(1) obtain x where x: "page = Inr x" by auto
  have fresh: "i \<notin> fst ` set pinf" using Cons.prems(2) by auto
  let ?pinf = "pinf @ [(i, page_entry E page)]"
  have bound: "\<forall>k \<in> fst ` set ?pinf. k < i + 1" using Cons.prems(2) by fastforce
  have rest: "\<forall>p \<in> set pages. \<exists>x. p = Inr x" using Cons.prems(1) by simp
  have shift: "map (\<lambda>k. (i + k, page_entry E ((page # pages) ! k))) [0..<length (page # pages)]
      = (i, page_entry E page) # map (\<lambda>k. (i + 1 + k, page_entry E (pages ! k))) [0..<length pages]"
  proof -
    have "[0..<length (page # pages)] = 0 # map Suc [0..<length pages]"
      by (simp add: upt_conv_Cons map_Suc_upt del: upt_Suc)
    then show ?thesis by (simp add: o_def)
  qed
  have step: "pdf_pages_loop E (page # pages) i tx pinf
      = pdf_pages_loop E pages (i + 1) (tx @ page_string page @ [10, 10]) ?pinf"
    using x fresh
    by (cases x) (simp_all add: Let_def page_entry_def page_string_def dict_set_fresh)
  show ?case
    unfolding step Cons.IH [OF rest bound] shift by simp
qed

text \<open>
  C7. For a PDF of n pages none of whose extractions raises, \<open>extract_text_from_pdf\<close>
  returns the concatenation, in page order, of each page's text (the empty string where
  extraction yields nothing) each followed by the separator of two newlines, and a
  \<open>page_info\<close> whose keys are exactly 1 to n in order. The key k is mapped to the raw
  text of page k and to its header candidates: the stripped forms, in order, of those of
  the first five lines of that text whose stripped length is below 50 and which contain
  an upper-case word or are upper-case as a whole.
\<close>

theorem extract_text_from_pdf_pages:
  assumes "pdfplumber_open E file_content = Inr pages"
    and "\<forall>p \<in> set pages. \<exists>x. p = Inr x"
  shows "extract_text_from_pdf E file_content =
     Inr (concat (map (\<lambda>p. page_string p @ [10, 10]) pages),
          map (\<lambda>k. (Suc k,
                 \<lparr> page_text = page_string (pages ! k),
                   page_headers =
                     map (py_strip E)
                       (filter (\<lambda>line. length (py_strip E line) < 50
                                  \<and> (list_ex (str_isupper E) (py_words E line) \<or> str_isupper E line))
                          (take 5 (py_split (page_string (pages ! k)) [10]))) \<rparr>))
            [0..<length pages])"
proof -
  have entry: "\<And>p. page_entry E p =
      \<lparr> page_text = page_string p,
        page_headers =
          map (py_strip E)
            (filter (\<lambda>line. length (py_strip E line) < 50
                       \<and> (list_ex (str_isupper E) (py_words E line) \<or> str_isupper E line))
               (take 5 (py_split (page_string p) [10]))) \<rparr>"
    unfolding page_entry_def scan_headers_eq header_test_def by simp
  show ?thesis
    using assms pdf_pages_loop_ok [of pages "[]" 1 E "[]"]
    by (simp add: extract_text_from_pdf_def entry)
qed

theorem extract_text_from_pdf_pages_witness:
  "pdfplumber_open (stub_pdf [Inr (Some (S ''POLICY TERMS\<newline>hello there\<newline>  PART A  '')), Inr None]) []
     = Inr [Inr (Some (S ''POLICY TERMS\<newline>hello there\<newline>  PART A  '')), Inr None]
   \<and> extract_text_from_pdf
        (stub_pdf [Inr (Some (S ''POLICY TERMS\<newline>hello there\<newline>  PART A  '')), Inr None]) [] =
       Inr (S ''POLICY TERMS\<newline>hello there\<newline>  PART A  '' @ [10, 10, 10, 10],
            [(1, \<lparr>page_text = S ''POLICY TERMS\<newline>hello there\<newline>  PART A  '',
                   page_headers = [S ''POLICY TERMS'', S ''PART A'']\<rparr>),
             (2, \<lparr>page_text = [], page_headers = []\<rparr>)])"
proof -
  let ?pages = "[Inr (Some (S ''POLICY TERMS\<newline>hello there\<newline>  PART A  '')), Inr None :: exn + pystr option]"
  have op: "pdfplumber_open (stub_pdf ?pages) [] = Inr ?pages"
    by (simp add: stub_pdf_def stub_env_def)
  have ok: "\<forall>p \<in> set ?pages. \<exists>x. p = Inr x"
    by simp
  have val: "(concat (map (\<lambda>p. page_string p @ [10, 10]) ?pages),
          map (\<lambda>k. (Suc k,
                 \<lparr> page_text = page_string (?pages ! k),
                   page_headers =
                     map (py_strip (stub_pdf ?pages))
                       (filter (\<lambda>line. length (py_strip (stub_pdf ?pages) line) < 50
                                  \<and> (list_ex (str_isupper (stub_pdf ?pages)) (py_words (stub_pdf ?pages) line)
                                       \<or> str_isupper (stub_pdf ?pages) line))
                          (take 5 (py_split (page_string (?pages ! k)) [10]))) \<rparr>))
            [0..<length ?pages])
     = (S ''POLICY TERMS\<newline>hello there\<newline>  PART A  '' @ [10, 10, 10, 10],
            [(1, \<lparr>page_text = S ''POLICY TERMS\<newline>hello there\<newline>  PART A  '',
                   page_headers = [S ''POLICY TERMS'', S ''PART A'']\<rparr>),
             (2, \<lparr>page_text = [], page_headers = []\<rparr>)])"
    by code_simp
  from extract_text_from_pdf_pages [OF op ok] op
  show ?thesis unfolding val by simp
qed

lemma set_dict_set: "set (dict_set d k v) \<subseteq> insert (k, v) (set d)"
  by (induction d) (auto split: if_splits)

lemma pdf_pages_loop_entries:
  "pdf_pages_loop E pages i tx pinf = Inr (full, page_info) \<Longrightarrow> (k, r) \<in> set page_info \<Longrightarrow>
   (k, r) \<in> set pinf
   \<or> page_headers r = scan_headers E (take 5 (py_split (page_text r) [10])) []"
proof (induction pages arbitrary: i tx pinf)
  case Nil
  then show ?case by simp
next
  case (Cons page pages)
  from Cons.prems(1) obtain x where x: "page = Inr x"
    by (cases page) simp_all
  define pt where "pt = (case x of None \<Rightarrow> [] | Some t \<Rightarrow> t)"
  define entry where
    "entry = \<lparr> page_text = pt, page_headers = scan_headers E (take 5 (py_split pt [10])) [] \<rparr>"
  have step: "pdf_pages_loop E pages (i + 1) (tx @ pt @ [10, 10]) (dict_set pinf i entry)
      = Inr (full, page_info)"
    using Cons.prems(1) x by (simp add: Let_def pt_def entry_def)
  from Cons.IH [OF step Cons.prems(2)]
  have "(k, r) \<in> set (dict_set pinf i entry)
      \<or> page_headers r = scan_headers E (take 5 (py_split (page_text r) [10])) []" .
  moreover have "(k, r) \<in> set (dict_set pinf i entry) \<Longrightarrow> (k, r) \<in> set pinf \<or> r = entry"
    using set_dict_set [of pinf i entry] by auto
  moreover have "page_headers entry = scan_headers E (take 5 (py_split (page_text entry) [10])) []"
    by (simp add: entry_def)
  ultimately show ?case by blast
qed

lemma set_take_filter_nth:
  "h \<in> set (map f (filter P (take n xs))) \<longleftrightarrow> (\<exists>k<n. k < length xs \<and> P (xs ! k) \<and> h = f (xs ! k))"
proof
  assume "h \<in> set (map f (filter P (take n xs)))"
  then obtain x where x: "x \<in> set (take n xs)" "P x" "h = f x" by auto
  then obtain k where "k < length (take n xs)" "take n xs ! k = x"
    by (auto simp: in_set_conv_nth)
  then show "\<exists>k<n. k < length xs \<and> P (xs ! k) \<and> h = f (xs ! k)"
    using x by (intro exI [of _ k]) auto
next
  assume "\<exists>k<n. k < length xs \<and> P (xs ! k) \<and> h = f (xs ! k)"
  then obtain k where k: "k < n" "k < length xs" "P (xs ! k)" "h = f (xs ! k)" by blast
  then have "xs ! k \<in> set (take n xs)"
    by (metis in_set_conv_nth length_take min_less_iff_conj nth_take)
  then show "h \<in> set (map f (filter P (take n xs)))"
    using k by auto
qed

text \<open>
  C6, as the code has it. In every entry of the \<open>page_info\<close> that
  \<open>extract_text_from_pdf\<close> returns, a string is among the header candidates if and only
  if it is the stripped form of one of the first five lines of the page text whose
  stripped length is strictly below 50 and which contains a fully upper-case word or is
  itself fully upper-case. Nothing requires a page to have a header.
\<close>

theorem header_candidates:
  assumes "extract_text_from_pdf E file_content = Inr (full, page_info)"
    and "(i, r) \<in> set page_info"
  shows "h \<in> set (page_headers r) \<longleftrightarrow>
     (\<exists>k<5. k < length (py_split (page_text r) [10])
        \<and> length (py_strip E (py_split (page_text r) [10] ! k)) < 50
        \<and> (list_ex (str_isupper E) (py_words E (py_split (page_text r) [10] ! k))
             \<or> str_isupper E (py_split (page_text r) [10] ! k))
        \<and> h = py_strip E (py_split (page_text r) [10] ! k))"
proof -
  from assms(1) obtain pages where
    loop: "pdf_pages_loop E pages 1 [] [] = Inr (full, page_info)"
    by (auto simp: extract_text_from_pdf_def split: sum.splits)
  from pdf_pages_loop_entries [OF loop assms(2)]
  have "page_headers r = scan_headers E (take 5 (py_split (page_text r) [10])) []" by simp
  then have "page_headers r
      = map (py_strip E) (filter (header_test E) (take 5 (py_split (page_text r) [10])))"
    by (simp add: scan_headers_eq)
  then show ?thesis
    by (simp only: set_take_filter_nth header_test_def conj_assoc)
qed

theorem header_candidates_witness:
  "extract_text_from_pdf (stub_pdf [Inr (Some (S ''POLICY TERMS''))]) [] =
     Inr (S ''POLICY TERMS'' @ [10, 10],
          [(1, \<lparr>page_text = S ''POLICY TERMS'', page_headers = [S ''POLICY TERMS'']\<rparr>)])
   \<and> (\<exists>k<5. k < length (py_split (S ''POLICY TERMS'') [10])
        \<and> length (py_strip (stub_pdf [Inr (Some (S ''POLICY TERMS''))]) (py_split (S ''POLICY TERMS'') [10] ! k)) < 50
        \<and> S ''POLICY TERMS'' = py_strip (stub_pdf [Inr (Some (S ''POLICY TERMS''))]) (py_split (S ''POLICY TERMS'') [10] ! k))"
proof -
  have run: "extract_text_from_pdf (stub_pdf [Inr (Some (S ''POLICY TERMS''))]) [] =
     Inr (S ''POLICY TERMS'' @ [10, 10],
          [(1, \<lparr>page_text = S ''POLICY TERMS'', page_headers = [S ''POLICY TERMS'']\<rparr>)])"
    by code_simp
  have mem: "(1, \<lparr>page_text = S ''POLICY TERMS'', page_headers = [S ''POLICY TERMS'']\<rparr>)
      \<in> set [(1::nat, \<lparr>page_text = S ''POLICY TERMS'', page_headers = [S ''POLICY TERMS'']\<rparr>)]"
    by simp
  from header_candidates [OF run mem, of "S ''POLICY TERMS''"] run
  show ?thesis by auto
qed

text \<open>
  C6 as stated allows a stripped length of exactly 50. A page whose only line is fifty
  letters A meets every condition of the claim, and the code lists no header for it.
\<close>

theorem header_at_most_50_counterexample:
  "extract_text_from_pdf (stub_pdf [Inr (Some (replicate 50 65))]) [] =
     Inr (replicate 50 65 @ [10, 10], [(1, \<lparr>page_text = replicate 50 65, page_headers = []\<rparr>)])
   \<and> py_split (replicate 50 65) [10] = [replicate 50 65]
   \<and> length (py_strip (stub_pdf [Inr (Some (replicate 50 65))]) (replicate 50 65)) \<le> 50
   \<and> str_isupper (stub_pdf [Inr (Some (replicate 50 65))]) (replicate 50 65)"
  by code_simp

text \<open>
  C4. For every uploaded file whose declared media type is none of the supported ones,
  \<open>extract_text\<close> raises the \<open>ValueError\<close> that names the type, after showing it,
  and returns neither text nor metadata.
\<close>

theorem extract_text_unsupported:
  assumes "f_type file \<notin> {S ''application/pdf'',
      S ''application/vnd.openxmlformats-officedocument.wordprocessingml.document'',
      S ''image/png'', S ''image/jpeg'', S ''image/jpg'', S ''text/plain''}"
  shows "extract_text E file w =
     (Inl (ValueError (S ''Unsupported file type: '' @ f_type file)),
      w\<lparr>ui := ui w @ [StError (S ''Error extracting text: '' @ S ''Unsupported file type: '' @ f_type file)]\<rparr>)"
  using assms by (simp add: extract_text_def extract_text_body_def Let_def)

theorem extract_text_unsupported_witness:
  "S ''video/mp4'' \<notin> {S ''application/pdf'',
      S ''application/vnd.openxmlformats-officedocument.wordprocessingml.document'',
      S ''image/png'', S ''image/jpeg'', S ''image/jpg'', S ''text/plain''}
   \<and> extract_text (stub_pdf []) \<lparr>f_type = S ''video/mp4'', f_name = S ''a.mp4'', f_value = []\<rparr> w0 =
     (Inl (ValueError (S ''Unsupported file type: video/mp4'')),
      \<lparr>calls = [], ui = [StError (S ''Error extracting text: Unsupported file type: video/mp4'')], printed = []\<rparr>)"
proof -
  have h: "f_type \<lparr>f_type = S ''video/mp4'', f_name = S ''a.mp4'', f_value = []\<rparr> \<notin> {S ''application/pdf'',
      S ''application/vnd.openxmlformats-officedocument.wordprocessingml.document'',
      S ''image/png'', S ''image/jpeg'', S ''image/jpg'', S ''text/plain''}"
    by (simp add: S_def)
  from extract_text_unsupported [OF h, of "stub_pdf []" w0] h
  show ?thesis by (simp add: S_def w0_def)
qed


section \<open>Summarisation and question answering\<close>














text \<open>
  C9. When the credential is missing (unset or empty), \<open>generate_summary\<close> returns the
  dictionary whose only item says that the key is not configured, \<open>answer_question\<close>
  returns the sentence saying so, both after showing the error, and neither sends
  anything to the model: the list of requests is unchanged, so nothing is retried.
\<close>

theorem missing_credential:
  assumes "API_KEY E = None \<or> API_KEY E = Some []"
  shows "generate_summary E text document_info readability_preference w =
           (JObj [(S ''coverage_details'', JArr [JStr (S ''API key not configured. Unable to generate summary.'')]),
                  (S ''exclusions'', JArr []),
                  (S ''deductibles'', JArr []),
                  (S ''premiums'', JArr []),
                  (S ''claims_process'', JArr []),
                  (S ''unusual_clauses'', JArr [])],
            w\<lparr>ui := ui w @
              [StError (S ''Gemini API key not found. Please set the GEMINI_API_KEY environment variable.'')]\<rparr>)
       \<and> answer_question E question text document_info readability_preference w =
           (S ''API key not configured. Unable to answer questions.'',
            w\<lparr>ui := ui w @
              [StError (S ''Gemini API key not found. Please set the GEMINI_API_KEY environment variable.'')]\<rparr>)
       \<and> calls (snd (generate_summary E text document_info readability_preference w)) = calls w
       \<and> calls (snd (answer_question E question text document_info readability_preference w)) = calls w"
  using assms
  by (auto simp: generate_summary_def answer_question_def setup_gemini_def summary_of_message_def)

theorem missing_credential_witness:
  "API_KEY (stub_env None [Inr (S ''yes'')] (\<lambda>t. Inr (Num 0))) = None
   \<and> generate_summary (stub_env None [Inr (S ''yes'')] (\<lambda>t. Inr (Num 0)))
        (S ''policy'') None (S ''Easy (Elementary School Level)'') w0 =
           (JObj [(S ''coverage_details'', JArr [JStr (S ''API key not configured. Unable to generate summary.'')]),
                  (S ''exclusions'', JArr []),
                  (S ''deductibles'', JArr []),
                  (S ''premiums'', JArr []),
                  (S ''claims_process'', JArr []),
                  (S ''unusual_clauses'', JArr [])],
            \<lparr>calls = [],
             ui = [StError (S ''Gemini API key not found. Please set the GEMINI_API_KEY environment variable.'')],
             printed = []\<rparr>)
   \<and> answer_question (stub_env None [Inr (S ''yes'')] (\<lambda>t. Inr (Num 0)))
        (S ''Am I covered?'') (S ''policy'') None (S ''Easy (Elementary School Level)'') w0 =
           (S ''API key not configured. Unable to answer questions.'',
            \<lparr>calls = [],
             ui = [StError (S ''Gemini API key not found. Please set the GEMINI_API_KEY environment variable.'')],
             printed = []\<rparr>)"
proof -
  have key: "API_KEY (stub_env None [Inr (S ''yes'')] (\<lambda>t. Inr (Num 0))) = None
      \<or> API_KEY (stub_env None [Inr (S ''yes'')] (\<lambda>t. Inr (Num 0))) = Some []"
    by (simp add: stub_env_def)
  from missing_credential [OF key, of "S ''policy''" None "S ''Easy (Elementary School Level)''" w0 "S ''Am I covered?''"]
  show ?thesis by (simp add: w0_def stub_env_def)
qed

text \<open>
  C3. With a credential, when the classification request returns a text that, stripped
  and lower-cased, does not start with \<open>yes\<close>, \<open>generate_summary\<close> returns the
  dictionary whose only item says that the document appears to be of the type named in
  the verdict, \<open>answer_question\<close> returns the sentence saying so, and the classification
  request is the only request either of them has sent.
\<close>

theorem not_auto_policy:
  assumes "API_KEY E = Some k" and "k \<noteq> []"
    and "generate_content E (calls w) (verification_prompt text) = Inr verdict"
    and "\<not> py_startswith (str_lower E (py_strip E verdict)) (S ''yes'')"
  shows "generate_summary E text document_info readability_preference w =
           (JObj [(S ''coverage_details'',
                   JArr [JStr (S ''This document appears to be ''
                                 @ document_type E (str_lower E (py_strip E verdict))
                                 @ S ''. Please upload an auto insurance policy document.'')]),
                  (S ''exclusions'', JArr []),
                  (S ''deductibles'', JArr []),
                  (S ''premiums'', JArr []),
                  (S ''claims_process'', JArr []),
                  (S ''unusual_clauses'', JArr [])],
            w\<lparr>calls := calls w @ [verification_prompt text]\<rparr>)
       \<and> answer_question E question text document_info readability_preference w =
           (S ''I cannot answer your question because this document appears to be ''
              @ document_type E (str_lower E (py_strip E verdict))
              @ S ''. Please upload an auto insurance policy document.'',
            w\<lparr>calls := calls w @ [verification_prompt text]\<rparr>)"
  using assms
  by (simp add: generate_summary_def answer_question_def setup_gemini_def summary_of_message_def
        generate_summary_body_def answer_question_body_def call_model_def Let_def)

theorem not_auto_policy_witness:
  "generate_summary
     (stub_env (Some (S ''k'')) [Inr (S ''No: a lease agreement'')] (\<lambda>t. Inr (Num 0)))
     (S ''This lease is made between ...'') None (S ''Easy (Elementary School Level)'') w0 =
       (JObj [(S ''coverage_details'',
               JArr [JStr (S ''This document appears to be a lease agreement. Please upload an auto insurance policy document.'')]),
              (S ''exclusions'', JArr []),
              (S ''deductibles'', JArr []),
              (S ''premiums'', JArr []),
              (S ''claims_process'', JArr []),
              (S ''unusual_clauses'', JArr [])],
        \<lparr>calls = [verification_prompt (S ''This lease is made between ...'')], ui = [], printed = []\<rparr>)
   \<and> answer_question
     (stub_env (Some (S ''k'')) [Inr (S ''No: a lease agreement'')] (\<lambda>t. Inr (Num 0)))
     (S ''Am I covered?'') (S ''This lease is made between ...'') None (S ''Easy (Elementary School Level)'') w0 =
       (S ''I cannot answer your question because this document appears to be a lease agreement. Please upload an auto insurance policy document.'',
        \<lparr>calls = [verification_prompt (S ''This lease is made between ...'')], ui = [], printed = []\<rparr>)"
proof -
  let ?E = "stub_env (Some (S ''k'')) [Inr (S ''No: a lease agreement'')] (\<lambda>t. Inr (Num 0))"
  have key: "API_KEY ?E = Some (S ''k'')" "S ''k'' \<noteq> []"
    by (simp_all add: stub_env_def S_def)
  have reply: "generate_content ?E (calls w0) (verification_prompt (S ''This lease is made between ...''))
      = Inr (S ''No: a lease agreement'')"
    by (simp add: stub_env_def scripted_def w0_def)
  have verdict: "str_lower ?E (py_strip ?E (S ''No: a lease agreement'')) = S ''no: a lease agreement''"
    by code_simp
  have no: "\<not> py_startswith (str_lower ?E (py_strip ?E (S ''No: a lease agreement''))) (S ''yes'')"
    unfolding verdict by code_simp
  have dt: "document_type ?E (S ''no: a lease agreement'') = S ''a lease agreement''"
    by code_simp
  from not_auto_policy [OF key reply no, of None "S ''Easy (Elementary School Level)''" "S ''Am I covered?''"]
  show ?thesis unfolding verdict dt by (simp add: w0_def S_def)
qed


section \<open>Backslashes in the payload\<close>















end
